theory Spec2Isabelle
  imports Complex_Main "HOL-Library.AList"
begin

section \<open>The auto-reply secretary: throttling log and reachability inference\<close>

text \<open>
  A shallow embedding of \<^verbatim>\<open>smart_secretary.py\<close>. Instants and durations are real numbers
  of seconds since the epoch: \<^verbatim>\<open>time.time()\<close> and \<^verbatim>\<open>datetime.now(timezone.utc)\<close> read the
  same clock, and the rounding of floats and of the microsecond field is not modelled.
  Everything the program does to the outside is explicit in a \<open>world\<close> value that each
  function takes and returns: the clock, the files, a script saying which of the coming
  file operations raise (and what a failed copy or write leaves on disk), and the trace
  of log records and transport actions.
\<close>

subsection \<open>Configuration (lines 30-66)\<close>

record config =
  conversation_threshold_sec :: real
  typing_delay_sec :: real
  responses_file :: string
  admin_status_check_id :: int
  online_threshold_sec :: real
  header_formatted :: string
  action_text_base :: string
  response_online_dynamic :: string
  response_offline_dynamic :: string

definition STATUS_CACHE_TTL_SEC :: real where
  "STATUS_CACHE_TTL_SEC = 30"

subsection \<open>Exceptions, log records, effects\<close>

text \<open>
  \<open>FloodWaitError\<close> carries its \<^verbatim>\<open>seconds\<close>; \<open>RuntimeError\<close> is the one \<^verbatim>\<open>load_log\<close> raises;
  \<open>IndexError\<close> is \<^verbatim>\<open>user_list[0]\<close> on an empty answer; \<open>JSONDecodeError\<close> and
  \<open>UnicodeDecodeError\<close> are what \<^verbatim>\<open>json.load\<close> raises on text that is not JSON and on
  bytes that are not UTF-8; \<open>OverflowError\<close> is \<^verbatim>\<open>float\<close> of an integer beyond the range
  of a float; \<open>OtherError\<close> is any other subclass of \<^verbatim>\<open>Exception\<close> a collaborator
  raises.
\<close>

datatype exn =
    FloodWaitError int | RuntimeError | IndexError
  | JSONDecodeError | UnicodeDecodeError | OverflowError
  | OtherError string

datatype level = DEBUG | INFO | WARNING | ERROR | CRITICAL

text \<open>
  One constructor for each logging call of the source, with the values its message
  interpolates; the fixed wording (partly not ASCII) is left out.
\<close>

datatype log_msg =
    CacheUsed                        \<comment> \<open>line 100\<close>
  | CacheExpired                     \<comment> \<open>line 102\<close>
  | ParseFailed string               \<comment> \<open>line 133\<close>
  | LogFileCorrupted string          \<comment> \<open>line 152\<close>
  | BackupCreated string             \<comment> \<open>line 153\<close>
  | StartingFresh                    \<comment> \<open>line 154\<close>
  | BackupFailed                     \<comment> \<open>line 156\<close>
  | FatalIOError string              \<comment> \<open>line 160\<close>
  | SaveFailed                       \<comment> \<open>line 181\<close>
  | LiveOnline                       \<comment> \<open>line 224\<close>
  | LiveOfflineWithin int            \<comment> \<open>line 235\<close>
  | LiveOfflineOver int              \<comment> \<open>line 238\<close>
  | LiveLastSeenMissing              \<comment> \<open>line 242\<close>
  | LiveUnknown                      \<comment> \<open>line 246\<close>
  | StatusCheckError exn             \<comment> \<open>line 251\<close>
  | Incoming string                  \<comment> \<open>line 278\<close>
  | ChoseOnline                      \<comment> \<open>line 288\<close>
  | ChoseOffline                     \<comment> \<open>line 291\<close>
  | ReplyLogged string               \<comment> \<open>line 311\<close>
  | FloodWaitNotice int              \<comment> \<open>line 314\<close>
  | ProcessingError exn              \<comment> \<open>line 317\<close>

datatype effect =
    Log level log_msg
  | GetUsersRequest "int list"       \<comment> \<open>the presence probe was called\<close>
  | SetTyping                        \<comment> \<open>the typing indicator was set\<close>
  | Slept real                       \<comment> \<open>\<^verbatim>\<open>asyncio.sleep\<close> returned\<close>
  | Replied string                   \<comment> \<open>\<^verbatim>\<open>event.reply\<close> sent this text\<close>

subsection \<open>The log file and the world\<close>

text \<open>
  A stored value is what the annotation of \<^verbatim>\<open>load_log\<close> says: a number or a string. A
  JSON number without fraction or exponent is read as a Python \<^verbatim>\<open>int\<close> of any size,
  every other one as a \<^verbatim>\<open>float\<close> (a real number here; the infinities and NaN, which
  \<^verbatim>\<open>json.load\<close> also yields, are not values of this type). A Python \<^verbatim>\<open>dict\<close> is an
  association list with distinct keys in insertion order; \<^verbatim>\<open>d[k] = v\<close> is
  \<^const>\<open>AList.update\<close> (replace in place, or append) and \<^verbatim>\<open>d.get(k)\<close> is \<^const>\<open>map_of\<close>.
\<close>

datatype log_value = IntNum int | FloatNum real | Str string

type_synonym pydict = "(string \<times> log_value) list"

text \<open>
  A file holds either the members of a JSON object as written, or raw bytes that are
  not a JSON document. Reading raw bytes with \<^verbatim>\<open>encoding='utf-8'\<close> raises
  \<^verbatim>\<open>UnicodeDecodeError\<close> when they are not well-formed UTF-8 (no overlong forms, no
  surrogates, nothing above U+10FFFF); otherwise the parser raises \<^verbatim>\<open>JSONDecodeError\<close>.
\<close>

datatype file_content = Json "(string \<times> log_value) list" | Raw string

definition continuation :: "nat \<Rightarrow> bool" where
  "continuation b = (0x80 \<le> b \<and> b \<le> 0xBF)"

definition second_of_three :: "nat \<Rightarrow> nat \<Rightarrow> bool" where
  "second_of_three b c =
     (if b = 0xE0 then 0xA0 \<le> c \<and> c \<le> 0xBF
      else if b = 0xED then 0x80 \<le> c \<and> c \<le> 0x9F
      else continuation c)"

definition second_of_four :: "nat \<Rightarrow> nat \<Rightarrow> bool" where
  "second_of_four b c =
     (if b = 0xF0 then 0x90 \<le> c \<and> c \<le> 0xBF
      else if b = 0xF4 then 0x80 \<le> c \<and> c \<le> 0x8F
      else continuation c)"

fun utf8_valid :: "nat list \<Rightarrow> bool" where
  "utf8_valid [] = True"
| "utf8_valid (b # bs) =
     (if b < 0x80 then utf8_valid bs
      else if 0xC2 \<le> b \<and> b \<le> 0xDF then
        (case bs of
           c1 # r \<Rightarrow> continuation c1 \<and> utf8_valid r
         | _ \<Rightarrow> False)
      else if 0xE0 \<le> b \<and> b \<le> 0xEF then
        (case bs of
           c1 # c2 # r \<Rightarrow> second_of_three b c1 \<and> continuation c2 \<and> utf8_valid r
         | _ \<Rightarrow> False)
      else if 0xF0 \<le> b \<and> b \<le> 0xF4 then
        (case bs of
           c1 # c2 # c3 # r \<Rightarrow>
             second_of_four b c1 \<and> continuation c2 \<and> continuation c3 \<and> utf8_valid r
         | _ \<Rightarrow> False)
      else False)"

declare utf8_valid.simps [simp del]

definition json_load :: "file_content \<Rightarrow> exn + pydict" where
  "json_load c =
     (case c of
        Json members \<Rightarrow> Inr (foldl (\<lambda>d (k, v). AList.update k v d) [] members)
      | Raw bytes \<Rightarrow>
          (if utf8_valid (map of_char bytes) then Inl JSONDecodeError
           else Inl UnicodeDecodeError))"

definition json_dump :: "pydict \<Rightarrow> file_content" where
  "json_dump d = Json d"

text \<open>
  Each opening of the log file for reading, each \<^verbatim>\<open>shutil.copy\<close> and each opening for
  writing takes the next entry of the script. \<open>Raises\<close> makes the operation raise with
  its destination untouched (the failure is at \<^verbatim>\<open>open\<close>); \<open>RaisesLeaving c\<close> makes a
  copy or a write raise after it has created or truncated its destination, which then
  holds \<open>c\<close> (an empty file is \<open>Raw []\<close>); for a read it is the same as \<open>Raises\<close>. An
  exhausted script means no more failures.
\<close>

datatype io_outcome = Succeeds | Raises | RaisesLeaving file_content

record world =
  clock :: real
  files :: "string \<Rightarrow> file_content option"
  io_script :: "io_outcome list"
  trace :: "effect list"

definition emit :: "effect \<Rightarrow> world \<Rightarrow> world" where
  "emit e w = w\<lparr>trace := trace w @ [e]\<rparr>"

definition next_io :: "world \<Rightarrow> io_outcome \<times> world" where
  "next_io w =
     (case io_script w of
        [] \<Rightarrow> (Succeeds, w)
      | b # bs \<Rightarrow> (b, w\<lparr>io_script := bs\<rparr>))"

definition sleep :: "real \<Rightarrow> world \<Rightarrow> world" where
  "sleep d w = emit (Slept d) (w\<lparr>clock := clock w + max 0 d\<rparr>)"

subsection \<open>Python's \<^verbatim>\<open>int(float)\<close>, \<^verbatim>\<open>str(int)\<close> and \<^verbatim>\<open>float(int)\<close>\<close>

definition py_int :: "real \<Rightarrow> int" where
  "py_int x = (if 0 \<le> x then \<lfloor>x\<rfloor> else \<lceil>x\<rceil>)"

fun str_nat :: "nat \<Rightarrow> string" where
  "str_nat n =
     (if n < 10 then [''0123456789'' ! n]
      else str_nat (n div 10) @ [''0123456789'' ! (n mod 10)])"

declare str_nat.simps [simp del]

definition str_int :: "int \<Rightarrow> string" where
  "str_int i = (if i < 0 then ''-'' @ str_nat (nat (- i)) else str_nat (nat i))"

text \<open>
  \<^verbatim>\<open>float\<close> of an \<^verbatim>\<open>int\<close> rounds to the nearest double and raises \<^verbatim>\<open>OverflowError\<close> when
  that is beyond the largest one, \<open>2 ^ 1024 - 2 ^ 971\<close>: from \<open>2 ^ 1024 - 2 ^ 970\<close> on.
  The rounding itself is not modelled.
\<close>

definition float_limit :: int where
  "float_limit = 2 ^ 1024 - 2 ^ 970"

definition py_float :: "int \<Rightarrow> exn + real" where
  "py_float i = (if \<bar>i\<bar> < float_limit then Inr (real_of_int i) else Inl OverflowError)"

subsection \<open>Library functions taken as parameters\<close>

text \<open>
  \<^verbatim>\<open>datetime.fromisoformat\<close> and \<^verbatim>\<open>datetime.isoformat\<close> belong to the Python library, not
  to this program. A parsed \<open>datetime\<close> is its wall-clock reading in seconds since
  1970-01-01T00:00:00 and, when it is aware, its offset from UTC in seconds.
  \<open>fromisoformat\<close> returns \<open>None\<close> where Python raises \<^verbatim>\<open>ValueError\<close>; \<open>isoformat lib t\<close> is
  \<^verbatim>\<open>isoformat()\<close> of the aware UTC datetime of the instant \<open>t\<close>.
\<close>

datatype datetime = Naive real | Aware real real

record pylib =
  fromisoformat :: "string \<Rightarrow> datetime option"
  isoformat :: "real \<Rightarrow> string"

subsection \<open>\<^verbatim>\<open>AdminStatusCache\<close> (lines 87-108)\<close>

record admin_status_cache =
  ttl :: real
  is_online :: bool
  timestamp :: real

definition AdminStatusCache_init :: "real \<Rightarrow> admin_status_cache" where
  "AdminStatusCache_init t = \<lparr>ttl = t, is_online = False, timestamp = 0\<rparr>"

definition AdminStatusCache_get ::
  "admin_status_cache \<Rightarrow> world \<Rightarrow> bool option \<times> world" where
  "AdminStatusCache_get self w =
     (let now = clock w in
      if now - timestamp self < ttl self
      then (Some (is_online self), emit (Log DEBUG CacheUsed) w)
      else (None, emit (Log DEBUG CacheExpired) w))"

definition AdminStatusCache_set ::
  "bool \<Rightarrow> admin_status_cache \<Rightarrow> world \<Rightarrow> admin_status_cache" where
  "AdminStatusCache_set v self w = self\<lparr>is_online := v, timestamp := clock w\<rparr>"

subsection \<open>\<^verbatim>\<open>ResponseManager\<close> (lines 111-199)\<close>

definition convert_to_timestamp ::
  "pylib \<Rightarrow> log_value \<Rightarrow> world \<Rightarrow> (exn + real) \<times> world" where
  "convert_to_timestamp lib v w =
     (case v of
        IntNum i \<Rightarrow> (py_float i, w)
      | FloatNum x \<Rightarrow> (Inr x, w)
      | Str s \<Rightarrow>
          (case fromisoformat lib s of
             None \<Rightarrow> (Inr 0, emit (Log ERROR (ParseFailed s)) w)
           | Some dt \<Rightarrow>
               (case dt of
                  Naive wall \<Rightarrow> (Inr (wall - 0), w)
                | Aware wall off \<Rightarrow> (Inr (wall - off), w))))"

definition backup_name :: "config \<Rightarrow> world \<Rightarrow> string" where
  "backup_name cfg w =
     responses_file cfg @ ''.corrupted_'' @ str_int (py_int (clock w)) @ ''.bak''"

text \<open>
  \<^verbatim>\<open>sync_load\<close>: \<^verbatim>\<open>except json.JSONDecodeError\<close> takes the backup branch,
  \<^verbatim>\<open>except IOError\<close> raises \<^verbatim>\<open>RuntimeError\<close>, and any other exception of the read
  (\<^verbatim>\<open>UnicodeDecodeError\<close>) leaves the function as it is.
\<close>

definition load_log :: "config \<Rightarrow> world \<Rightarrow> (exn + pydict) \<times> world" where
  "load_log cfg w =
     (case files w (responses_file cfg) of
        None \<Rightarrow> (Inr [], w)
      | Some content \<Rightarrow>
          (case next_io w of
             (Succeeds, w1) \<Rightarrow>
               (case json_load content of
                  Inr d \<Rightarrow> (Inr d, w1)
                | Inl JSONDecodeError \<Rightarrow>
                    (let bn = backup_name cfg w1 in
                     case next_io w1 of
                       (Succeeds, w2) \<Rightarrow>
                         (Inr [],
                          emit (Log WARNING StartingFresh)
                            (emit (Log CRITICAL (BackupCreated bn))
                              (emit (Log CRITICAL (LogFileCorrupted (responses_file cfg)))
                                (w2\<lparr>files := (files w2)(bn \<mapsto> content)\<rparr>))))
                     | (Raises, w2) \<Rightarrow>
                         (Inr [], emit (Log ERROR BackupFailed) w2)
                     | (RaisesLeaving part, w2) \<Rightarrow>
                         (Inr [],
                          emit (Log ERROR BackupFailed)
                            (w2\<lparr>files := (files w2)(bn \<mapsto> part)\<rparr>)))
                | Inl e \<Rightarrow> (Inl e, w1))
           | (_, w1) \<Rightarrow>
               (Inl RuntimeError,
                emit (Log CRITICAL (FatalIOError (responses_file cfg))) w1)))"

definition save_log :: "pylib \<Rightarrow> config \<Rightarrow> string \<Rightarrow> world \<Rightarrow> (exn + unit) \<times> world" where
  "save_log lib cfg user_id w =
     (case load_log cfg w of
        (Inl e, w1) \<Rightarrow> (Inl e, w1)
      | (Inr lg, w1) \<Rightarrow>
          (let now_iso = isoformat lib (clock w1);
               log' = AList.update user_id (Str now_iso) lg
           in case next_io w1 of
                (Succeeds, w2) \<Rightarrow>
                  (Inr (), w2\<lparr>files := (files w2)(responses_file cfg \<mapsto> json_dump log')\<rparr>)
              | (Raises, w2) \<Rightarrow>
                  (Inr (), emit (Log ERROR SaveFailed) w2)
              | (RaisesLeaving part, w2) \<Rightarrow>
                  (Inr (),
                   emit (Log ERROR SaveFailed)
                     (w2\<lparr>files := (files w2)(responses_file cfg \<mapsto> part)\<rparr>))))"

definition should_reply :: "pylib \<Rightarrow> config \<Rightarrow> string \<Rightarrow> world \<Rightarrow> (exn + bool) \<times> world" where
  "should_reply lib cfg user_id w =
     (case load_log cfg w of
        (Inl e, w1) \<Rightarrow> (Inl e, w1)
      | (Inr lg, w1) \<Rightarrow>
          (case map_of lg user_id of
             None \<Rightarrow> (Inr True, w1)
           | Some last_response_value \<Rightarrow>
               (case convert_to_timestamp lib last_response_value w1 of
                  (Inl e, w2) \<Rightarrow> (Inl e, w2)
                | (Inr last_response_timestamp, w2) \<Rightarrow>
                    (Inr (clock w2 - last_response_timestamp \<ge> conversation_threshold_sec cfg),
                     w2))))"

subsection \<open>The transport collaborator\<close>

text \<open>
  Telethon is outside the program. What a call of the client or of the event returns, or
  the exception it raises, is given with the event; \<open>UserStatusOther\<close> stands for every
  status that is none of the three the source tests for (also a missing one).
  \<open>UserStatusOffline\<close> carries \<^verbatim>\<open>was_online\<close>, an instant or \<^verbatim>\<open>None\<close>.
\<close>

datatype user_status =
  UserStatusOnline | UserStatusRecently | UserStatusOffline "real option" | UserStatusOther

record tl_user =
  status :: user_status

datatype chat = User bool | Group | Channel    \<comment> \<open>\<open>User b\<close>: an individual account, \<open>b\<close> its \<^verbatim>\<open>bot\<close> flag\<close>

record telegram_client =
  get_users :: "int list \<Rightarrow> exn + tl_user list"
  set_typing :: "exn + unit"

record event =
  out :: bool
  get_chat :: "exn + chat"
  sender_id :: int
  get_input_chat :: "exn + unit"
  reply :: "string \<Rightarrow> exn + unit"
  client :: telegram_client

subsection \<open>\<^verbatim>\<open>check_admin_online_status\<close> (lines 202-257)\<close>

text \<open>Lines 223-247: the branches on the type of \<^verbatim>\<open>status\<close>.\<close>

definition live_check :: "config \<Rightarrow> user_status \<Rightarrow> world \<Rightarrow> bool \<times> world" where
  "live_check cfg st w =
     (case st of
        UserStatusOnline \<Rightarrow> (True, emit (Log INFO LiveOnline) w)
      | UserStatusRecently \<Rightarrow> (True, emit (Log INFO LiveOnline) w)
      | UserStatusOffline was_online \<Rightarrow>
          (case was_online of
             Some was_online_utc \<Rightarrow>
               (let now_utc = clock w;
                    last_seen_delta = now_utc - was_online_utc
                in if last_seen_delta \<le> online_threshold_sec cfg
                   then (True, emit (Log INFO (LiveOfflineWithin (py_int last_seen_delta))) w)
                   else (False, emit (Log INFO (LiveOfflineOver (py_int last_seen_delta))) w))
           | None \<Rightarrow> (False, emit (Log INFO LiveLastSeenMissing) w))
      | UserStatusOther \<Rightarrow> (False, emit (Log INFO LiveUnknown) w))"

text \<open>Lines 214-252: the \<^verbatim>\<open>try\<close> block and its \<^verbatim>\<open>except Exception\<close>.\<close>

definition live_probe :: "config \<Rightarrow> telegram_client \<Rightarrow> world \<Rightarrow> bool \<times> world" where
  "live_probe cfg cl w =
     (let w1 = emit (GetUsersRequest [admin_status_check_id cfg]) w in
      case get_users cl [admin_status_check_id cfg] of
        Inl e \<Rightarrow> (False, emit (Log ERROR (StatusCheckError e)) w1)
      | Inr [] \<Rightarrow> (False, emit (Log ERROR (StatusCheckError IndexError)) w1)
      | Inr (admin_user # _) \<Rightarrow> live_check cfg (status admin_user) w1)"

definition check_admin_online_status ::
  "config \<Rightarrow> telegram_client \<Rightarrow> admin_status_cache \<Rightarrow> world
     \<Rightarrow> bool \<times> admin_status_cache \<times> world" where
  "check_admin_online_status cfg cl status_cache w =
     (case AdminStatusCache_get status_cache w of
        (Some cached_status, w1) \<Rightarrow> (cached_status, status_cache, w1)
      | (None, w1) \<Rightarrow>
          (case live_probe cfg cl w1 of
             (online, w2) \<Rightarrow> (online, AdminStatusCache_set online status_cache w2, w2)))"

text \<open>
  The handlers that \<^verbatim>\<open>main\<close> registers share one cache: a run of queries, each with the
  client's answer and the clock reading of its own moment.
\<close>

fun check_repeatedly ::
  "config \<Rightarrow> (telegram_client \<times> real) list \<Rightarrow> admin_status_cache \<Rightarrow> world
     \<Rightarrow> bool list \<times> admin_status_cache \<times> world" where
  "check_repeatedly cfg [] c w = ([], c, w)"
| "check_repeatedly cfg ((cl, t) # qs) c w =
     (case check_admin_online_status cfg cl c (w\<lparr>clock := t\<rparr>) of
        (b, c1, w1) \<Rightarrow>
          (case check_repeatedly cfg qs c1 w1 of
             (bs, c2, w2) \<Rightarrow> (b # bs, c2, w2)))"

subsection \<open>\<^verbatim>\<open>process_message\<close> (lines 260-317)\<close>

text \<open>Lines 281-311: the body of the \<^verbatim>\<open>try\<close> statement.\<close>

definition try_body ::
  "pylib \<Rightarrow> config \<Rightarrow> event \<Rightarrow> string \<Rightarrow> admin_status_cache \<Rightarrow> world
     \<Rightarrow> (exn + unit) \<times> admin_status_cache \<times> world" where
  "try_body lib cfg ev sender status_cache w =
     (case get_input_chat ev of
        Inl e \<Rightarrow> (Inl e, status_cache, w)
      | Inr chat_input \<Rightarrow>
          (case check_admin_online_status cfg (client ev) status_cache w of
             (is_admin_online, cache1, w1) \<Rightarrow>
               (let dynamic_message_part =
                      (if is_admin_online then response_online_dynamic cfg
                       else response_offline_dynamic cfg);
                    w2 = emit (Log INFO (if is_admin_online then ChoseOnline else ChoseOffline)) w1;
                    final_response_text =
                      header_formatted cfg @ dynamic_message_part @ action_text_base cfg
                in case set_typing (client ev) of
                     Inl e \<Rightarrow> (Inl e, cache1, w2)
                   | Inr _ \<Rightarrow>
                       (let w3 = sleep (typing_delay_sec cfg) (emit SetTyping w2) in
                        case reply ev final_response_text of
                          Inl e \<Rightarrow> (Inl e, cache1, w3)
                        | Inr _ \<Rightarrow>
                            (case save_log lib cfg sender
                                    (emit (Replied final_response_text) w3) of
                               (Inl e, w4) \<Rightarrow> (Inl e, cache1, w4)
                             | (Inr _, w4) \<Rightarrow>
                                 (Inr (), cache1,
                                  emit (Log INFO (ReplyLogged sender)) w4))))))"

text \<open>Lines 313-317: the two handlers of the \<^verbatim>\<open>try\<close> statement.\<close>

definition handle ::
  "(exn + unit) \<times> admin_status_cache \<times> world
     \<Rightarrow> (exn + unit) \<times> admin_status_cache \<times> world" where
  "handle r =
     (case r of
        (Inr u, c, w) \<Rightarrow> (Inr u, c, w)
      | (Inl (FloodWaitError seconds), c, w) \<Rightarrow>
          (Inr (), c, sleep (real_of_int seconds) (emit (Log WARNING (FloodWaitNotice seconds)) w))
      | (Inl e, c, w) \<Rightarrow>
          (Inr (), c, emit (Log ERROR (ProcessingError e)) w))"

definition process_message ::
  "pylib \<Rightarrow> config \<Rightarrow> event \<Rightarrow> admin_status_cache \<Rightarrow> world
     \<Rightarrow> (exn + unit) \<times> admin_status_cache \<times> world" where
  "process_message lib cfg ev status_cache w =
     (if out ev then (Inr (), status_cache, w)
      else
        case get_chat ev of
          Inl e \<Rightarrow> (Inl e, status_cache, w)
        | Inr ch \<Rightarrow>
            (case ch of
               User is_bot \<Rightarrow>
                 (if is_bot then (Inr (), status_cache, w)
                  else
                    (let sender = str_int (sender_id ev) in
                     case should_reply lib cfg sender w of
                       (Inl e, w1) \<Rightarrow> (Inl e, status_cache, w1)
                     | (Inr ok, w1) \<Rightarrow>
                         (if \<not> ok then (Inr (), status_cache, w1)
                          else handle (try_body lib cfg ev sender status_cache
                                         (emit (Log INFO (Incoming sender)) w1)))))
             | Group \<Rightarrow> (Inr (), status_cache, w)
             | Channel \<Rightarrow> (Inr (), status_cache, w)))"

subsection \<open>The log as a later load reads it\<close>

text \<open>
  What \<^const>\<open>load_log\<close> returns when it returns: the empty dict for a missing file and
  for one that is not JSON, the parsed dict otherwise.
\<close>

definition persisted_log :: "config \<Rightarrow> world \<Rightarrow> pydict" where
  "persisted_log cfg w =
     (case files w (responses_file cfg) of
        None \<Rightarrow> []
      | Some content \<Rightarrow> (case json_load content of Inl e \<Rightarrow> [] | Inr d \<Rightarrow> d))"

text \<open>
  What \<^const>\<open>convert_to_timestamp\<close> returns or raises for a stored value (lines 122-134,
  without the logging).
\<close>

definition epoch_of :: "pylib \<Rightarrow> log_value \<Rightarrow> exn + real" where
  "epoch_of lib v =
     (case v of
        IntNum i \<Rightarrow> py_float i
      | FloatNum x \<Rightarrow> Inr x
      | Str s \<Rightarrow>
          (case fromisoformat lib s of
             None \<Rightarrow> Inr 0
           | Some (Naive wall) \<Rightarrow> Inr wall
           | Some (Aware wall off) \<Rightarrow> Inr (wall - off)))"

subsection \<open>Concrete configurations, collaborators and worlds\<close>

definition cfg0 :: config where
  "cfg0 =
     \<lparr>conversation_threshold_sec = 600, typing_delay_sec = 2,
      responses_file = ''responses.json'', admin_status_check_id = 42,
      online_threshold_sec = 600, header_formatted = ''Hello. '',
      action_text_base = '' Please leave a message.'',
      response_online_dynamic = ''The owner is online.'',
      response_offline_dynamic = ''The owner is offline.''\<rparr>"

text \<open>
  The library at the strings used below: 2023-11-14T22:13:20 UTC is the instant
  1700000000.
\<close>

definition lib0 :: pylib where
  "lib0 =
     \<lparr>fromisoformat =
        (\<lambda>s. if s = ''2023-11-14T22:13:20+00:00'' then Some (Aware 1700000000 0)
             else if s = ''2023-11-14T22:13:20'' then Some (Naive 1700000000)
             else if s = ''2023-11-15T00:13:20+02:00'' then Some (Aware 1700007200 7200)
             else None),
      isoformat = (\<lambda>t. if t = 1700000000 then ''2023-11-14T22:13:20+00:00'' else ''?'')\<rparr>"

definition cache0 :: admin_status_cache where
  "cache0 = AdminStatusCache_init STATUS_CACHE_TTL_SEC"

definition world_at :: "real \<Rightarrow> world" where
  "world_at t = \<lparr>clock = t, files = (\<lambda>p. None), io_script = [], trace = []\<rparr>"

definition world_logged :: "real \<Rightarrow> file_content \<Rightarrow> io_outcome list \<Rightarrow> world" where
  "world_logged t content script =
     \<lparr>clock = t,
      files = (\<lambda>p. if p = ''responses.json'' then Some content else None),
      io_script = script, trace = []\<rparr>"

definition client_answering :: "user_status \<Rightarrow> telegram_client" where
  "client_answering st = \<lparr>get_users = (\<lambda>ids. Inr [\<lparr>status = st\<rparr>]), set_typing = Inr ()\<rparr>"

definition client_failing :: "exn \<Rightarrow> telegram_client" where
  "client_failing e = \<lparr>get_users = (\<lambda>ids. Inl e), set_typing = Inr ()\<rparr>"

definition event_from :: "int \<Rightarrow> telegram_client \<Rightarrow> event" where
  "event_from uid cl =
     \<lparr>out = False, get_chat = Inr (User False), sender_id = uid,
      get_input_chat = Inr (), reply = (\<lambda>txt. Inr ()), client = cl\<rparr>"

section \<open>Basic facts\<close>

lemma emit_fields [simp]:
  "clock (emit e w) = clock w"
  "files (emit e w) = files w"
  "io_script (emit e w) = io_script w"
  "trace (emit e w) = trace w @ [e]"
  by (simp_all add: emit_def)

lemma next_io_fields [simp]:
  "clock (snd (next_io w)) = clock w"
  "files (snd (next_io w)) = files w"
  "trace (snd (next_io w)) = trace w"
  by (simp_all add: next_io_def split: list.splits)


lemma next_io_no_fault:
  "set (io_script w) \<subseteq> {Succeeds} \<Longrightarrow>
     fst (next_io w) = Succeeds \<and> set (io_script (snd (next_io w))) \<subseteq> {Succeeds}"
  by (auto simp: next_io_def split: list.splits)

lemma sleep_fields [simp]:
  "clock (sleep d w) = clock w + max 0 d"
  "files (sleep d w) = files w"
  "io_script (sleep d w) = io_script w"
  "trace (sleep d w) = trace w @ [Slept d]"
  by (simp_all add: sleep_def)

lemma backup_name_neq: "backup_name cfg w \<noteq> responses_file cfg"
  by (simp add: backup_name_def)

subsection \<open>Dicts built by assignment\<close>

lemma update_fresh:
  "k \<notin> fst ` set d \<Longrightarrow> AList.update k v d = d @ [(k, v)]"
  by (induction d) auto

lemma foldl_update_distinct:
  "distinct (map fst (acc @ ms)) \<Longrightarrow>
     foldl (\<lambda>d (k, v). AList.update k v d) acc ms = acc @ ms"
proof (induction ms arbitrary: acc)
  case Nil
  then show ?case by simp
next
  case (Cons m ms)
  obtain k v where m: "m = (k, v)" by (cases m)
  from Cons.prems have fresh: "k \<notin> fst ` set acc"
    by (auto simp: m)
  from Cons.prems have "distinct (map fst ((acc @ [(k, v)]) @ ms))"
    by (simp add: m)
  from Cons.IH [OF this] show ?case
    by (simp add: m update_fresh [OF fresh])
qed

lemma foldl_update_keys_distinct:
  "distinct (map fst acc) \<Longrightarrow>
     distinct (map fst (foldl (\<lambda>d (k, v). AList.update k v d) acc ms))"
  by (induction ms arbitrary: acc) (auto simp: distinct_update split: prod.splits)

lemma json_load_distinct: "json_load c = Inr d \<Longrightarrow> distinct (map fst d)"
  by (auto simp: json_load_def foldl_update_keys_distinct
        split: file_content.splits if_splits)

lemma json_load_dump:
  "distinct (map fst d) \<Longrightarrow> json_load (json_dump d) = Inr d"
  using foldl_update_distinct [of "[]" d] by (simp add: json_load_def json_dump_def)

lemma json_load_raises:
  "json_load c = Inl e \<Longrightarrow> e = JSONDecodeError \<or> e = UnicodeDecodeError"
  by (auto simp: json_load_def split: file_content.splits if_splits)

lemma persisted_log_distinct: "distinct (map fst (persisted_log cfg w))"
  by (auto simp: persisted_log_def json_load_distinct split: option.splits sum.splits)

subsection \<open>\<^const>\<open>load_log\<close>\<close>

lemma load_log_unfold:
  "load_log cfg w =
     (case files w (responses_file cfg) of
        None \<Rightarrow> (Inr [], w)
      | Some content \<Rightarrow>
          (let w1 = snd (next_io w) in
           if fst (next_io w) \<noteq> Succeeds
           then (Inl RuntimeError, emit (Log CRITICAL (FatalIOError (responses_file cfg))) w1)
           else
             (case json_load content of
                Inr d \<Rightarrow> (Inr d, w1)
              | Inl e \<Rightarrow>
                  if e \<noteq> JSONDecodeError then (Inl e, w1)
                  else
                    (let bn = backup_name cfg w1; w2 = snd (next_io w1) in
                     case fst (next_io w1) of
                       Succeeds \<Rightarrow>
                         (Inr [],
                          emit (Log WARNING StartingFresh)
                            (emit (Log CRITICAL (BackupCreated bn))
                              (emit (Log CRITICAL (LogFileCorrupted (responses_file cfg)))
                                (w2\<lparr>files := (files w2)(bn \<mapsto> content)\<rparr>))))
                     | Raises \<Rightarrow> (Inr [], emit (Log ERROR BackupFailed) w2)
                     | RaisesLeaving part \<Rightarrow>
                         (Inr [],
                          emit (Log ERROR BackupFailed)
                            (w2\<lparr>files := (files w2)(bn \<mapsto> part)\<rparr>))))))"
  by (simp add: load_log_def Let_def split_beta
        split: option.splits io_outcome.splits sum.splits exn.splits)

lemma load_log_fields [simp]:
  "clock (snd (load_log cfg w)) = clock w"
  "files (snd (load_log cfg w)) (responses_file cfg) = files w (responses_file cfg)"
  using backup_name_neq [of cfg "snd (next_io w)"]
  by (auto simp: load_log_unfold Let_def split: option.splits sum.splits io_outcome.splits)

lemma load_log_result:
  "fst (load_log cfg w) = Inr lg \<Longrightarrow> lg = persisted_log cfg w"
  by (auto simp: load_log_unfold persisted_log_def Let_def
        split: option.splits sum.splits io_outcome.splits if_splits)

lemma load_log_no_fault:
  assumes "set (io_script w) \<subseteq> {Succeeds}"
  shows "fst (load_log cfg w) = Inr (persisted_log cfg w)
         \<or> fst (load_log cfg w) = Inl UnicodeDecodeError"
    and "set (io_script (snd (load_log cfg w))) \<subseteq> {Succeeds}"
proof -
  note a = next_io_no_fault [OF assms]
  note b = next_io_no_fault [of "snd (next_io w)", OF conjunct2 [OF a]]
  show "fst (load_log cfg w) = Inr (persisted_log cfg w)
         \<or> fst (load_log cfg w) = Inl UnicodeDecodeError"
    using a b
    by (auto simp: load_log_unfold persisted_log_def Let_def
          dest: json_load_raises split: option.splits sum.splits)
  show "set (io_script (snd (load_log cfg w))) \<subseteq> {Succeeds}"
    using a b assms
    by (simp add: load_log_unfold Let_def split: option.splits sum.splits)
qed

lemma load_log_parses:
  assumes "files w (responses_file cfg) = Some content" and "json_load content = Inr d"
    and "fst (next_io w) = Succeeds"
  shows "fst (load_log cfg w) = Inr d"
  using assms by (simp add: load_log_unfold Let_def)


lemma load_log_copy:
  assumes "files w (responses_file cfg) = Some content"
    and "json_load content = Inl JSONDecodeError"
    and "fst (next_io w) = Succeeds"
  shows "load_log cfg w =
           (case fst (next_io (snd (next_io w))) of
              Succeeds \<Rightarrow>
                (Inr [],
                 emit (Log WARNING StartingFresh)
                   (emit (Log CRITICAL (BackupCreated (backup_name cfg w)))
                     (emit (Log CRITICAL (LogFileCorrupted (responses_file cfg)))
                       ((snd (next_io (snd (next_io w))))
                          \<lparr>files := (files w)(backup_name cfg w \<mapsto> content)\<rparr>))))
            | Raises \<Rightarrow>
                (Inr [], emit (Log ERROR BackupFailed) (snd (next_io (snd (next_io w)))))
            | RaisesLeaving part \<Rightarrow>
                (Inr [],
                 emit (Log ERROR BackupFailed)
                   ((snd (next_io (snd (next_io w))))
                      \<lparr>files := (files w)(backup_name cfg w \<mapsto> part)\<rparr>)))"
  using assms
  by (simp add: load_log_unfold Let_def backup_name_def split: io_outcome.splits)

lemma load_log_undecodable:
  assumes "files w (responses_file cfg) = Some content"
    and "json_load content = Inl UnicodeDecodeError"
    and "fst (next_io w) = Succeeds"
  shows "load_log cfg w = (Inl UnicodeDecodeError, snd (next_io w))"
  using assms by (simp add: load_log_unfold Let_def)

lemma str_nat_1700000000: "str_nat 1700000000 = ''1700000000''"
  by (simp add: str_nat.simps)

subsection \<open>\<^const>\<open>save_log\<close> and \<^const>\<open>should_reply\<close>\<close>

lemma save_log_unfold:
  "save_log lib cfg user_id w =
     (case fst (load_log cfg w) of
        Inl e \<Rightarrow> (Inl e, snd (load_log cfg w))
      | Inr lg \<Rightarrow>
          (let w1 = snd (load_log cfg w); w2 = snd (next_io w1) in
           case fst (next_io w1) of
             Succeeds \<Rightarrow>
               (Inr (),
                w2\<lparr>files := (files w2)(responses_file cfg \<mapsto>
                  json_dump (AList.update user_id (Str (isoformat lib (clock w))) lg))\<rparr>)
           | Raises \<Rightarrow> (Inr (), emit (Log ERROR SaveFailed) w2)
           | RaisesLeaving part \<Rightarrow>
               (Inr (),
                emit (Log ERROR SaveFailed)
                  (w2\<lparr>files := (files w2)(responses_file cfg \<mapsto> part)\<rparr>))))"
  by (simp add: save_log_def Let_def split_beta split: sum.splits io_outcome.splits)

lemma save_log_no_fault:
  assumes "set (io_script w) \<subseteq> {Succeeds}" and "fst (save_log lib cfg c w) = Inr ()"
  shows "files (snd (save_log lib cfg c w)) (responses_file cfg) =
           Some (json_dump (AList.update c (Str (isoformat lib (clock w))) (persisted_log cfg w)))"
    and "set (io_script (snd (save_log lib cfg c w))) \<subseteq> {Succeeds}"
    and "clock (snd (save_log lib cfg c w)) = clock w"
proof -
  from assms(2) obtain lg where lg: "fst (load_log cfg w) = Inr lg"
    by (auto simp: save_log_unfold split: sum.splits)
  note p = load_log_result [OF lg]
  note l = load_log_no_fault(2) [OF assms(1), of cfg]
  note n = next_io_no_fault [OF l]
  show "files (snd (save_log lib cfg c w)) (responses_file cfg) =
           Some (json_dump (AList.update c (Str (isoformat lib (clock w))) (persisted_log cfg w)))"
    using lg p n by (simp add: save_log_unfold Let_def)
  show "set (io_script (snd (save_log lib cfg c w))) \<subseteq> {Succeeds}"
    using lg n by (simp add: save_log_unfold Let_def)
  show "clock (snd (save_log lib cfg c w)) = clock w"
    using lg n by (simp add: save_log_unfold Let_def)
qed

lemma save_log_succeeds:
  assumes "set (io_script w) \<subseteq> {Succeeds}"
    and "fst (load_log cfg w) \<noteq> Inl UnicodeDecodeError"
  shows "fst (save_log lib cfg c w) = Inr ()"
  using load_log_no_fault(1) [OF assms(1), of cfg] assms(2)
  by (auto simp: save_log_unfold Let_def split: io_outcome.splits)



lemma convert_to_timestamp_fields [simp]:
  "fst (convert_to_timestamp lib v w) = epoch_of lib v"
  "clock (snd (convert_to_timestamp lib v w)) = clock w"
  "files (snd (convert_to_timestamp lib v w)) = files w"
  "io_script (snd (convert_to_timestamp lib v w)) = io_script w"
  by (simp_all add: convert_to_timestamp_def epoch_of_def
        split: log_value.splits option.splits datetime.splits)

lemma should_reply_unfold:
  "should_reply lib cfg user_id w =
     (case fst (load_log cfg w) of
        Inl e \<Rightarrow> (Inl e, snd (load_log cfg w))
      | Inr lg \<Rightarrow>
          (case map_of lg user_id of
             None \<Rightarrow> (Inr True, snd (load_log cfg w))
           | Some v \<Rightarrow>
               (case epoch_of lib v of
                  Inl e \<Rightarrow> (Inl e, snd (convert_to_timestamp lib v (snd (load_log cfg w))))
                | Inr ts \<Rightarrow>
                    (Inr (conversation_threshold_sec cfg \<le> clock w - ts),
                     snd (convert_to_timestamp lib v (snd (load_log cfg w)))))))"
proof -
  have c: "convert_to_timestamp lib v u =
             (epoch_of lib v, snd (convert_to_timestamp lib v u))" for v u
    by (simp add: prod_eq_iff)
  show ?thesis
    unfolding should_reply_def
    by (subst c) (simp add: split_beta split: sum.splits option.splits)
qed


subsection \<open>\<^const>\<open>check_admin_online_status\<close>\<close>

lemma live_probe_status:
  "get_users cl [admin_status_check_id cfg] = Inr (u # us) \<Longrightarrow>
   fst (live_probe cfg cl w) =
     (case status u of
        UserStatusOnline \<Rightarrow> True
      | UserStatusRecently \<Rightarrow> True
      | UserStatusOffline None \<Rightarrow> False
      | UserStatusOffline (Some t) \<Rightarrow> clock w - t \<le> online_threshold_sec cfg
      | UserStatusOther \<Rightarrow> False)"
  by (simp add: live_probe_def live_check_def Let_def
        split: user_status.splits option.splits)

lemma check_miss:
  "\<not> (clock w - timestamp c < ttl c) \<Longrightarrow>
   check_admin_online_status cfg cl c w =
     (case live_probe cfg cl (emit (Log DEBUG CacheExpired) w) of
        (online, w2) \<Rightarrow> (online, AdminStatusCache_set online c w2, w2))"
  by (simp add: check_admin_online_status_def AdminStatusCache_get_def)

lemma check_hit:
  "clock w - timestamp c < ttl c \<Longrightarrow>
   check_admin_online_status cfg cl c w = (is_online c, c, emit (Log DEBUG CacheUsed) w)"
  by (simp add: check_admin_online_status_def AdminStatusCache_get_def)

lemma check_repeatedly_hits:
  assumes "\<forall>(cl, t) \<in> set qs. t - timestamp c < ttl c"
  shows "check_repeatedly cfg qs c w =
           (replicate (length qs) (is_online c), c,
            w\<lparr>clock := (if qs = [] then clock w else snd (last qs)),
              trace := trace w @ replicate (length qs) (Log DEBUG CacheUsed)\<rparr>)"
  using assms
proof (induction qs arbitrary: w)
  case Nil
  then show ?case by simp
next
  case (Cons q qs)
  obtain cl t where q: "q = (cl, t)" by (cases q)
  from Cons.prems have hit: "clock (w\<lparr>clock := t\<rparr>) - timestamp c < ttl c"
    and rest: "\<forall>(cl, t) \<in> set qs. t - timestamp c < ttl c"
    by (auto simp: q)
  show ?case
    by (simp add: q check_hit [OF hit] Cons.IH [OF rest] emit_def replicate_append_same)
qed

lemma live_probe_raises:
  "get_users cl [admin_status_check_id cfg] = Inl e \<Longrightarrow>
   live_probe cfg cl w =
     (False, emit (Log ERROR (StatusCheckError e))
               (emit (GetUsersRequest [admin_status_check_id cfg]) w))"
  by (simp add: live_probe_def Let_def)

lemma check_probe_raises:
  assumes "\<not> (clock w - timestamp c < ttl c)"
    and "get_users cl [admin_status_check_id cfg] = Inl e"
  shows "check_admin_online_status cfg cl c w =
           (False, c\<lparr>is_online := False, timestamp := clock w\<rparr>,
            emit (Log ERROR (StatusCheckError e))
              (emit (GetUsersRequest [admin_status_check_id cfg])
                (emit (Log DEBUG CacheExpired) w)))"
  by (simp add: check_miss [OF assms(1)] live_probe_raises [OF assms(2)]
        AdminStatusCache_set_def)

subsection \<open>What each step leaves alone\<close>

lemma live_probe_fields [simp]:
  "clock (snd (live_probe cfg cl w)) = clock w"
  "files (snd (live_probe cfg cl w)) = files w"
  "io_script (snd (live_probe cfg cl w)) = io_script w"
  by (simp_all add: live_probe_def live_check_def Let_def
        split: sum.splits list.splits user_status.splits option.splits)

lemma live_probe_no_reply [simp]:
  "Replied txt \<in> set (trace (snd (live_probe cfg cl w))) \<longleftrightarrow> Replied txt \<in> set (trace w)"
  by (simp add: live_probe_def live_check_def Let_def
        split: sum.splits list.splits user_status.splits option.splits)

lemma live_probe_trace_mono:
  "x \<in> set (trace w) \<Longrightarrow> x \<in> set (trace (snd (live_probe cfg cl w)))"
  by (simp add: live_probe_def live_check_def Let_def
        split: sum.splits list.splits user_status.splits option.splits)

lemma check_unfold:
  "check_admin_online_status cfg cl c w =
     (if clock w - timestamp c < ttl c
      then (is_online c, c, emit (Log DEBUG CacheUsed) w)
      else (fst (live_probe cfg cl (emit (Log DEBUG CacheExpired) w)),
            AdminStatusCache_set (fst (live_probe cfg cl (emit (Log DEBUG CacheExpired) w))) c
              (snd (live_probe cfg cl (emit (Log DEBUG CacheExpired) w))),
            snd (live_probe cfg cl (emit (Log DEBUG CacheExpired) w))))"
  by (simp add: check_admin_online_status_def AdminStatusCache_get_def split_beta)

lemma check_fields [simp]:
  "clock (snd (snd (check_admin_online_status cfg cl c w))) = clock w"
  "files (snd (snd (check_admin_online_status cfg cl c w))) = files w"
  "io_script (snd (snd (check_admin_online_status cfg cl c w))) = io_script w"
  by (simp_all add: check_unfold)

lemma check_no_reply [simp]:
  "Replied txt \<in> set (trace (snd (snd (check_admin_online_status cfg cl c w))))
     \<longleftrightarrow> Replied txt \<in> set (trace w)"
  by (simp add: check_unfold)

lemma load_log_no_reply [simp]:
  "Replied txt \<in> set (trace (snd (load_log cfg w))) \<longleftrightarrow> Replied txt \<in> set (trace w)"
  by (simp add: load_log_unfold Let_def split: option.splits sum.splits io_outcome.splits)

lemma load_log_trace_mono:
  "x \<in> set (trace w) \<Longrightarrow> x \<in> set (trace (snd (load_log cfg w)))"
  by (simp add: load_log_unfold Let_def split: option.splits sum.splits io_outcome.splits)

lemma save_log_trace_mono:
  "x \<in> set (trace w) \<Longrightarrow> x \<in> set (trace (snd (save_log lib cfg c w)))"
  by (simp add: save_log_unfold Let_def load_log_trace_mono
        split: sum.splits io_outcome.splits)

lemma should_reply_fields [simp]:
  "clock (snd (should_reply lib cfg c w)) = clock w"
  "files (snd (should_reply lib cfg c w)) (responses_file cfg) = files w (responses_file cfg)"
  by (simp_all add: should_reply_unfold split: sum.splits option.splits)

lemma should_reply_no_reply [simp]:
  "Replied txt \<in> set (trace (snd (should_reply lib cfg c w))) \<longleftrightarrow> Replied txt \<in> set (trace w)"
  by (simp add: should_reply_unfold convert_to_timestamp_def
        split: sum.splits option.splits log_value.splits datetime.splits)



subsection \<open>\<^const>\<open>process_message\<close>\<close>


lemma handle_returns: "fst (handle r) = Inr ()"
  by (cases r) (auto simp: handle_def split: sum.splits exn.splits)

lemma handle_fields [simp]:
  "fst (snd (handle r)) = fst (snd r)"
  "files (snd (snd (handle r))) = files (snd (snd r))"
  by (cases r; auto simp: handle_def split: sum.splits exn.splits)+

lemma handle_trace_mono:
  "x \<in> set (trace (snd (snd r))) \<Longrightarrow> x \<in> set (trace (snd (snd (handle r))))"
  by (cases r) (auto simp: handle_def split: sum.splits exn.splits)

lemma handle_no_reply [simp]:
  "Replied txt \<in> set (trace (snd (snd (handle r)))) \<longleftrightarrow> Replied txt \<in> set (trace (snd (snd r)))"
  by (cases r) (auto simp: handle_def split: sum.splits exn.splits)

lemma process_message_reaches:
  assumes "\<not> out ev" and "get_chat ev = Inr (User False)"
    and "fst (should_reply lib cfg (str_int (sender_id ev)) w) = Inr True"
  shows "process_message lib cfg ev cache w =
           handle (try_body lib cfg ev (str_int (sender_id ev)) cache
                     (emit (Log INFO (Incoming (str_int (sender_id ev))))
                        (snd (should_reply lib cfg (str_int (sender_id ev)) w))))"
  using assms by (simp add: process_message_def Let_def split_beta split: sum.splits)

lemma process_message_propagates:
  assumes "\<not> out ev" and "get_chat ev = Inr (User False)"
    and "fst (should_reply lib cfg (str_int (sender_id ev)) w) = Inl e"
  shows "fst (process_message lib cfg ev cache w) = Inl e"
  using assms by (simp add: process_message_def Let_def split_beta split: sum.splits)



lemma try_body_replies:
  assumes "get_input_chat ev = Inr ()" and "set_typing (client ev) = Inr ()"
    and "\<not> fst (check_admin_online_status cfg (client ev) cache w)"
    and "reply ev (header_formatted cfg @ response_offline_dynamic cfg @ action_text_base cfg)
           = Inr ()"
  shows "Replied (header_formatted cfg @ response_offline_dynamic cfg @ action_text_base cfg)
           \<in> set (trace (snd (snd (try_body lib cfg ev sender cache w))))"
    and "fst (snd (try_body lib cfg ev sender cache w)) =
           fst (snd (check_admin_online_status cfg (client ev) cache w))"
    and "x \<in> set (trace (snd (snd (check_admin_online_status cfg (client ev) cache w))))
           \<Longrightarrow> x \<in> set (trace (snd (snd (try_body lib cfg ev sender cache w))))"
  using assms
  by (auto simp: try_body_def Let_def split_beta save_log_trace_mono split: sum.splits)


section \<open>The claims\<close>

text \<open>
  C1 (cooldown monotonicity). After \<open>save_log\<close> has written the entry of \<open>c\<close> at the
  instant \<open>t1\<close> (it returns normally, no file operation raises, and the library parses
  back the string it wrote), \<open>should_reply\<close> for \<open>c\<close> at \<open>t1 + \<Delta>\<close> is false when \<open>\<Delta>\<close> is
  less than the cooldown window and true otherwise; and \<open>should_reply\<close> is true whenever
  the loaded log has no entry for \<open>c\<close>.
\<close>

theorem cooldown_monotonicity:
  "(set (io_script w) \<subseteq> {Succeeds} \<and> fst (save_log lib cfg c w) = Inr () \<and>
    fromisoformat lib (isoformat lib (clock w)) = Some (Aware (clock w) 0) \<longrightarrow>
      fst (should_reply lib cfg c ((snd (save_log lib cfg c w))\<lparr>clock := clock w + \<Delta>\<rparr>)) =
        Inr (conversation_threshold_sec cfg \<le> \<Delta>))
   \<and> (fst (load_log cfg v) = Inr lg \<and> map_of lg c = None \<longrightarrow>
        fst (should_reply lib cfg c v) = Inr True)"
proof (intro conjI impI)
  assume a: "set (io_script w) \<subseteq> {Succeeds} \<and> fst (save_log lib cfg c w) = Inr () \<and>
    fromisoformat lib (isoformat lib (clock w)) = Some (Aware (clock w) 0)"
  then have nf: "set (io_script w) \<subseteq> {Succeeds}"
    and ok: "fst (save_log lib cfg c w) = Inr ()"
    and rt: "fromisoformat lib (isoformat lib (clock w)) = Some (Aware (clock w) 0)"
    by simp_all
  let ?w' = "snd (save_log lib cfg c w)"
  let ?w'' = "?w'\<lparr>clock := clock w + \<Delta>\<rparr>"
  let ?d = "AList.update c (Str (isoformat lib (clock w))) (persisted_log cfg w)"
  have written: "files ?w'' (responses_file cfg) = Some (json_dump ?d)"
    using save_log_no_fault(1) [OF nf ok] by simp
  have dist: "distinct (map fst ?d)"
    by (rule distinct_update [OF persisted_log_distinct])
  have "set (io_script ?w'') \<subseteq> {Succeeds}"
    using save_log_no_fault(2) [OF nf ok] by simp
  then have opens: "fst (next_io ?w'') = Succeeds"
    by (simp add: next_io_no_fault)
  have "fst (load_log cfg ?w'') = Inr ?d"
    by (rule load_log_parses [OF written json_load_dump [OF dist] opens])
  then show "fst (should_reply lib cfg c ?w'') = Inr (conversation_threshold_sec cfg \<le> \<Delta>)"
    by (simp add: should_reply_unfold update_conv' epoch_of_def rt)
next
  assume "fst (load_log cfg v) = Inr lg \<and> map_of lg c = None"
  then show "fst (should_reply lib cfg c v) = Inr True"
    by (simp add: should_reply_unfold)
qed

theorem cooldown_monotonicity_witness:
  "fst (should_reply lib0 cfg0 ''777''
          ((snd (save_log lib0 cfg0 ''777'' (world_at 1700000000)))
             \<lparr>clock := clock (world_at 1700000000) + 599\<rparr>)) = Inr False
   \<and> fst (should_reply lib0 cfg0 ''777''
          ((snd (save_log lib0 cfg0 ''777'' (world_at 1700000000)))
             \<lparr>clock := clock (world_at 1700000000) + 600\<rparr>)) = Inr True
   \<and> fst (should_reply lib0 cfg0 ''777'' (world_at 1700000000)) = Inr True"
proof -
  have nf: "set (io_script (world_at 1700000000)) \<subseteq> {Succeeds}"
    by (simp add: world_at_def)
  have ok: "fst (save_log lib0 cfg0 ''777'' (world_at 1700000000)) = Inr ()"
    by (simp add: save_log_def load_log_def world_at_def next_io_def)
  have rt: "fromisoformat lib0 (isoformat lib0 (clock (world_at 1700000000))) =
              Some (Aware (clock (world_at 1700000000)) 0)"
    by (simp add: world_at_def lib0_def)
  have ld: "fst (load_log cfg0 (world_at 1700000000)) = Inr [] \<and> map_of [] ''777'' = None"
    by (simp add: load_log_def world_at_def)
  show ?thesis
    using nf ok rt ld
      cooldown_monotonicity [where w = "world_at 1700000000" and lib = lib0 and cfg = cfg0
        and c = "''777''" and \<Delta> = 599 and v = "world_at 1700000000" and lg = "[]"]
      cooldown_monotonicity [where w = "world_at 1700000000" and lib = lib0 and cfg = cfg0
        and c = "''777''" and \<Delta> = 600 and v = "world_at 1700000000" and lg = "[]"]
    by (simp add: cfg0_def)
qed

text \<open>
  C2 (reachability classification). On a cache miss, when the probe answers with the
  owner's status, the result is true for \<open>UserStatusOnline\<close> and \<open>UserStatusRecently\<close>;
  for \<open>UserStatusOffline\<close> with a last-seen instant \<open>t\<close> it is true exactly when
  \<open>now - t \<le> online_threshold_sec\<close>; for \<open>UserStatusOffline\<close> without an instant and for
  every other status it is false.
\<close>

theorem reachability_classification:
  assumes "fst (AdminStatusCache_get status_cache w) = None"
    and "get_users cl [admin_status_check_id cfg] = Inr (u # us)"
  shows "fst (check_admin_online_status cfg cl status_cache w) =
     (case status u of
        UserStatusOnline \<Rightarrow> True
      | UserStatusRecently \<Rightarrow> True
      | UserStatusOffline None \<Rightarrow> False
      | UserStatusOffline (Some t) \<Rightarrow> clock w - t \<le> online_threshold_sec cfg
      | UserStatusOther \<Rightarrow> False)"
proof -
  from assms(1) have miss: "\<not> (clock w - timestamp status_cache < ttl status_cache)"
    by (auto simp: AdminStatusCache_get_def split: if_splits)
  show ?thesis
    using live_probe_status [OF assms(2), of "emit (Log DEBUG CacheExpired) w"]
    by (auto simp: check_miss [OF miss] split: prod.splits user_status.splits option.splits)
qed

theorem reachability_classification_witness:
  "fst (check_admin_online_status cfg0
          (client_answering (UserStatusOffline (Some 1699999400))) cache0
          (world_at 1700000000)) = True
   \<and> fst (check_admin_online_status cfg0
          (client_answering (UserStatusOffline (Some 1699999399))) cache0
          (world_at 1700000000)) = False"
proof -
  have miss: "fst (AdminStatusCache_get cache0 (world_at 1700000000)) = None"
    by (simp add: AdminStatusCache_get_def cache0_def AdminStatusCache_init_def
          STATUS_CACHE_TTL_SEC_def world_at_def)
  have a: "get_users (client_answering (UserStatusOffline (Some 1699999400)))
             [admin_status_check_id cfg0] = Inr [\<lparr>status = UserStatusOffline (Some 1699999400)\<rparr>]"
    and b: "get_users (client_answering (UserStatusOffline (Some 1699999399)))
             [admin_status_check_id cfg0] = Inr [\<lparr>status = UserStatusOffline (Some 1699999399)\<rparr>]"
    by (simp_all add: client_answering_def)
  show ?thesis
    using reachability_classification [OF miss a] reachability_classification [OF miss b]
    by (simp add: world_at_def cfg0_def)
qed

text \<open>
  C3 (cache TTL boundary). After \<open>set(v)\<close> at the instant \<open>t0\<close>, \<open>get()\<close> at an instant \<open>t\<close>
  returns \<open>v\<close> when \<open>t - t0 < ttl\<close> and nothing when \<open>t - t0 \<ge> ttl\<close>; \<open>set\<close> overwrites the
  entry whatever it held and stamps it with the current time.
\<close>

theorem cache_ttl_boundary:
  "(clock w - clock w0 < ttl self \<longrightarrow>
      fst (AdminStatusCache_get (AdminStatusCache_set v self w0) w) = Some v) \<and>
   (clock w - clock w0 \<ge> ttl self \<longrightarrow>
      fst (AdminStatusCache_get (AdminStatusCache_set v self w0) w) = None) \<and>
   AdminStatusCache_set v self w0 = \<lparr>ttl = ttl self, is_online = v, timestamp = clock w0\<rparr>"
  by (simp add: AdminStatusCache_get_def AdminStatusCache_set_def)

theorem cache_ttl_boundary_witness:
  "fst (AdminStatusCache_get (AdminStatusCache_set True cache0 (world_at 1700000000))
          (world_at 1700000029)) = Some True
   \<and> fst (AdminStatusCache_get (AdminStatusCache_set True cache0 (world_at 1700000000))
          (world_at 1700000030)) = None"
proof -
  have lt: "clock (world_at 1700000029) - clock (world_at 1700000000) < ttl cache0"
    and ge: "clock (world_at 1700000030) - clock (world_at 1700000000) \<ge> ttl cache0"
    by (simp_all add: world_at_def cache0_def AdminStatusCache_init_def STATUS_CACHE_TTL_SEC_def)
  show ?thesis
    using lt ge
      cache_ttl_boundary [of "world_at 1700000029" "world_at 1700000000" cache0 True]
      cache_ttl_boundary [of "world_at 1700000030" "world_at 1700000000" cache0 True]
    by blast
qed

text \<open>
  C4 (probe failure is fail-safe). For an event that reaches the \<open>try\<close> block on a cache
  miss, when the probe raises and the typing indicator and the send of the offline text
  go through: the handler returns normally, the error is logged, the cache holds false
  stamped with the current time, and the reply sent is header, offline variant and
  action text.
\<close>

theorem probe_failure_fail_safe:
  assumes "\<not> out ev" and "get_chat ev = Inr (User False)"
    and "fst (should_reply lib cfg (str_int (sender_id ev)) w) = Inr True"
    and "get_input_chat ev = Inr ()"
    and "fst (AdminStatusCache_get cache w) = None"
    and "get_users (client ev) [admin_status_check_id cfg] = Inl e"
    and "set_typing (client ev) = Inr ()"
    and "reply ev (header_formatted cfg @ response_offline_dynamic cfg @ action_text_base cfg)
           = Inr ()"
    and "w' = snd (snd (process_message lib cfg ev cache w))"
  shows "fst (process_message lib cfg ev cache w) = Inr ()
       \<and> Log ERROR (StatusCheckError e) \<in> set (trace w')
       \<and> Log INFO ChoseOffline \<in> set (trace w')
       \<and> Replied (header_formatted cfg @ response_offline_dynamic cfg @ action_text_base cfg)
            \<in> set (trace w')
       \<and> fst (snd (process_message lib cfg ev cache w)) =
            cache\<lparr>is_online := False, timestamp := clock w\<rparr>"
proof -
  let ?sender = "str_int (sender_id ev)"
  let ?w1 = "emit (Log INFO (Incoming ?sender)) (snd (should_reply lib cfg ?sender w))"
  let ?body = "try_body lib cfg ev ?sender cache ?w1"
  let ?chk = "check_admin_online_status cfg (client ev) cache ?w1"
  have pm: "process_message lib cfg ev cache w = handle ?body"
    by (rule process_message_reaches [OF assms(1-3)])
  from assms(5) have "\<not> (clock ?w1 - timestamp cache < ttl cache)"
    by (auto simp: AdminStatusCache_get_def split: if_splits)
  note chk = check_probe_raises [OF this assms(6)]
  have off: "\<not> fst ?chk"
    by (simp add: chk)
  note tb = try_body_replies [OF assms(4) assms(7) off assms(8), where lib = lib and sender = ?sender]
  have "Log ERROR (StatusCheckError e) \<in> set (trace (snd (snd ?chk)))"
    by (simp add: chk)
  from tb(3) [OF this] have err: "Log ERROR (StatusCheckError e) \<in> set (trace w')"
    by (simp add: assms(9) pm handle_trace_mono)
  from tb(1) have rep:
    "Replied (header_formatted cfg @ response_offline_dynamic cfg @ action_text_base cfg)
       \<in> set (trace w')"
    by (simp add: assms(9) pm)
  have "Log INFO ChoseOffline \<in> set (trace (snd (snd ?body)))"
    using assms(4,7,8) off
    by (auto simp: try_body_def Let_def split_beta save_log_trace_mono split: sum.splits)
  then have cho: "Log INFO ChoseOffline \<in> set (trace w')"
    by (simp add: assms(9) pm handle_trace_mono)
  have cache: "fst (snd (process_message lib cfg ev cache w)) =
      cache\<lparr>is_online := False, timestamp := clock w\<rparr>"
    by (simp add: pm tb(2) chk)
  have ret: "fst (process_message lib cfg ev cache w) = Inr ()"
    by (simp add: pm handle_returns)
  from ret err cho rep cache show ?thesis
    by blast
qed

theorem probe_failure_fail_safe_witness:
  "fst (process_message lib0 cfg0 (event_from 777 (client_failing (OtherError ''timeout'')))
          cache0 (world_at 1700000000)) = Inr ()
   \<and> Replied ''Hello. The owner is offline. Please leave a message.''
        \<in> set (trace (snd (snd (process_message lib0 cfg0
              (event_from 777 (client_failing (OtherError ''timeout'')))
              cache0 (world_at 1700000000)))))"
proof -
  let ?ev = "event_from 777 (client_failing (OtherError ''timeout''))"
  let ?w = "world_at 1700000000"
  have a: "\<not> out ?ev" and b: "get_chat ?ev = Inr (User False)"
    and d: "get_input_chat ?ev = Inr ()"
    by (simp_all add: event_from_def)
  have c: "fst (should_reply lib0 cfg0 (str_int (sender_id ?ev)) ?w) = Inr True"
    by (simp add: should_reply_unfold load_log_def world_at_def)
  have m: "fst (AdminStatusCache_get cache0 ?w) = None"
    by (simp add: AdminStatusCache_get_def cache0_def AdminStatusCache_init_def
          STATUS_CACHE_TTL_SEC_def world_at_def)
  have r: "get_users (client ?ev) [admin_status_check_id cfg0] = Inl (OtherError ''timeout'')"
    and t: "set_typing (client ?ev) = Inr ()"
    and s: "reply ?ev (header_formatted cfg0 @ response_offline_dynamic cfg0
                         @ action_text_base cfg0) = Inr ()"
    by (simp_all add: event_from_def client_failing_def)
  from probe_failure_fail_safe [OF a b c d m r t s refl]
  show ?thesis
    by (simp add: cfg0_def)
qed

text \<open>
  C5 (corrupt-log recovery), as amended. When the log file exists, opens, and holds
  text that is not JSON, the load returns an empty log, raises nothing and leaves the
  original as it is. When the copy goes through, the backup
  \<open><file>.corrupted_<int(now)>.bak\<close> holds the corrupt content and the records logged
  are two critical ones (the second names the backup) and a warning. When the copy
  raises, the only record is an error and nothing critical is logged; the backup path
  holds nothing new, or what the failed copy left there.
\<close>

theorem corrupt_log_recovery:
  assumes "files w (responses_file cfg) = Some content"
    and "json_load content = Inl JSONDecodeError"
    and "fst (next_io w) = Succeeds"
    and "w' = snd (load_log cfg w)"
    and "bn = responses_file cfg @ ''.corrupted_'' @ str_int (py_int (clock w)) @ ''.bak''"
  shows "fst (load_log cfg w) = Inr []
       \<and> files w' (responses_file cfg) = Some content
       \<and> (case fst (next_io (snd (next_io w))) of
            Succeeds \<Rightarrow>
              files w' = (files w)(bn \<mapsto> content)
              \<and> trace w' =
                  trace w @
                  [Log CRITICAL (LogFileCorrupted (responses_file cfg)),
                   Log CRITICAL (BackupCreated bn), Log WARNING StartingFresh]
          | Raises \<Rightarrow>
              files w' = files w \<and> trace w' = trace w @ [Log ERROR BackupFailed]
          | RaisesLeaving part \<Rightarrow>
              files w' = (files w)(bn \<mapsto> part)
              \<and> trace w' = trace w @ [Log ERROR BackupFailed])"
proof -
  note l = load_log_copy [OF assms(1-3)]
  have b: "bn = backup_name cfg w"
    by (simp add: assms(5) backup_name_def)
  have "fst (load_log cfg w) = Inr []"
    by (simp add: l split: io_outcome.splits)
  moreover have "files w' (responses_file cfg) = Some content"
    by (simp add: assms(1,4))
  moreover have "case fst (next_io (snd (next_io w))) of
            Succeeds \<Rightarrow>
              files w' = (files w)(bn \<mapsto> content)
              \<and> trace w' =
                  trace w @
                  [Log CRITICAL (LogFileCorrupted (responses_file cfg)),
                   Log CRITICAL (BackupCreated bn), Log WARNING StartingFresh]
          | Raises \<Rightarrow>
              files w' = files w \<and> trace w' = trace w @ [Log ERROR BackupFailed]
          | RaisesLeaving part \<Rightarrow>
              files w' = (files w)(bn \<mapsto> part)
              \<and> trace w' = trace w @ [Log ERROR BackupFailed]"
    by (simp add: assms(4) l b split: io_outcome.splits)
  ultimately show ?thesis
    by blast
qed

theorem corrupt_log_recovery_witness:
  "fst (load_log cfg0 (world_logged 1700000000 (Raw ''{oops'') [])) = Inr []
   \<and> files (snd (load_log cfg0 (world_logged 1700000000 (Raw ''{oops'') [])))
        ''responses.json.corrupted_1700000000.bak'' = Some (Raw ''{oops'')
   \<and> trace (snd (load_log cfg0 (world_logged 1700000000 (Raw ''{oops'') []))) =
        [Log CRITICAL (LogFileCorrupted ''responses.json''),
         Log CRITICAL (BackupCreated ''responses.json.corrupted_1700000000.bak''),
         Log WARNING StartingFresh]
   \<and> files (snd (load_log cfg0 (world_logged 1700000000 (Raw ''{oops'') [Succeeds, Raises])))
        = files (world_logged 1700000000 (Raw ''{oops'') [Succeeds, Raises])
   \<and> files (snd (load_log cfg0
        (world_logged 1700000000 (Raw ''{oops'') [Succeeds, RaisesLeaving (Raw ''{o'')])))
        ''responses.json.corrupted_1700000000.bak'' = Some (Raw ''{o'')"
proof -
  let ?a = "world_logged 1700000000 (Raw ''{oops'') []"
  let ?b = "world_logged 1700000000 (Raw ''{oops'') [Succeeds, Raises]"
  let ?c = "world_logged 1700000000 (Raw ''{oops'') [Succeeds, RaisesLeaving (Raw ''{o'')]"
  have fa: "files ?a (responses_file cfg0) = Some (Raw ''{oops'')"
    and fb: "files ?b (responses_file cfg0) = Some (Raw ''{oops'')"
    and fc: "files ?c (responses_file cfg0) = Some (Raw ''{oops'')"
    by (simp_all add: world_logged_def cfg0_def)
  have j: "json_load (Raw ''{oops'') = Inl JSONDecodeError"
    by (simp add: json_load_def utf8_valid.simps)
  have oa: "fst (next_io ?a) = Succeeds" and ob: "fst (next_io ?b) = Succeeds"
    and oc: "fst (next_io ?c) = Succeeds"
    by (simp_all add: next_io_def world_logged_def)
  have ca: "fst (next_io (snd (next_io ?a))) = Succeeds"
    and cb: "fst (next_io (snd (next_io ?b))) = Raises"
    and cc: "fst (next_io (snd (next_io ?c))) = RaisesLeaving (Raw ''{o'')"
    by (simp_all add: next_io_def world_logged_def)
  have nm: "responses_file cfg0 @ ''.corrupted_'' @ str_int (py_int (clock ?a)) @ ''.bak''
              = ''responses.json.corrupted_1700000000.bak''"
    and nc: "responses_file cfg0 @ ''.corrupted_'' @ str_int (py_int (clock ?c)) @ ''.bak''
              = ''responses.json.corrupted_1700000000.bak''"
    by (simp_all add: cfg0_def world_logged_def py_int_def str_int_def str_nat_1700000000)
  have rf: "responses_file cfg0 = ''responses.json''" and tr: "trace ?a = []"
    by (simp_all add: cfg0_def world_logged_def)
  from corrupt_log_recovery [OF fa j oa refl refl] corrupt_log_recovery [OF fb j ob refl refl]
    corrupt_log_recovery [OF fc j oc refl refl] ca cb cc nm nc rf tr
  show ?thesis by simp
qed

text \<open>
  C5 as stated fails twice. The file is not JSON and the copy raises: the load returns
  the empty log, but no backup exists and nothing critical is logged. The file is not
  UTF-8: the load raises \<open>UnicodeDecodeError\<close>, with no backup and no log record.
\<close>

theorem corrupt_log_backup_counterexample:
  "json_load (Raw ''{oops'') = Inl JSONDecodeError
   \<and> fst (load_log cfg0 (world_logged 1700000000 (Raw ''{oops'') [Succeeds, Raises])) = Inr []
   \<and> backup_name cfg0 (world_logged 1700000000 (Raw ''{oops'') [Succeeds, Raises])
        = ''responses.json.corrupted_1700000000.bak''
   \<and> files (snd (load_log cfg0 (world_logged 1700000000 (Raw ''{oops'') [Succeeds, Raises])))
        ''responses.json.corrupted_1700000000.bak'' = None
   \<and> trace (snd (load_log cfg0 (world_logged 1700000000 (Raw ''{oops'') [Succeeds, Raises])))
        = [Log ERROR BackupFailed]
   \<and> fst (load_log cfg0 (world_logged 1700000000 (Raw [CHR 0xFF, CHR 0xFE]) []))
        = Inl UnicodeDecodeError
   \<and> files (snd (load_log cfg0 (world_logged 1700000000 (Raw [CHR 0xFF, CHR 0xFE]) [])))
        ''responses.json.corrupted_1700000000.bak'' = None
   \<and> trace (snd (load_log cfg0 (world_logged 1700000000 (Raw [CHR 0xFF, CHR 0xFE]) []))) = []"
  by (simp add: load_log_def world_logged_def cfg0_def next_io_def json_load_def
        utf8_valid.simps backup_name_def py_int_def str_int_def str_nat_1700000000 emit_def)

text \<open>
  C6 (storage unavailability is fatal): the code at the failing input. The first read
  of the log goes through and the second raises. \<open>load_log\<close> raises \<open>RuntimeError\<close>, and
  the handler lets it through when it comes from \<open>should_reply\<close>; but when it comes from
  \<open>save_log\<close>, after the reply was sent, the handler catches it with every other
  exception, logs it and returns normally.
\<close>

theorem storage_failure_swallowed_after_send:
  "fst (load_log cfg0 (world_logged 1700000000 (Json []) [Raises])) = Inl RuntimeError
   \<and> fst (process_message lib0 cfg0 (event_from 777 (client_answering UserStatusOnline))
            cache0 (world_logged 1700000000 (Json []) [Raises])) = Inl RuntimeError
   \<and> fst (process_message lib0 cfg0 (event_from 777 (client_answering UserStatusOnline))
            cache0 (world_logged 1700000000 (Json []) [Succeeds, Raises])) = Inr ()
   \<and> trace (snd (snd (process_message lib0 cfg0
              (event_from 777 (client_answering UserStatusOnline))
              cache0 (world_logged 1700000000 (Json []) [Succeeds, Raises])))) =
       [Log INFO (Incoming ''777''), Log DEBUG CacheExpired, GetUsersRequest [42],
        Log INFO LiveOnline, Log INFO ChoseOnline, SetTyping, Slept 2,
        Replied ''Hello. The owner is online. Please leave a message.'',
        Log CRITICAL (FatalIOError ''responses.json''),
        Log ERROR (ProcessingError RuntimeError)]"
  by (simp add: process_message_def handle_def try_body_def check_admin_online_status_def
        live_probe_def live_check_def AdminStatusCache_get_def AdminStatusCache_set_def
        should_reply_def save_log_def load_log_def next_io_def json_load_def emit_def
        sleep_def cfg0_def cache0_def AdminStatusCache_init_def STATUS_CACHE_TTL_SEC_def
        world_logged_def event_from_def client_answering_def str_int_def str_nat.simps
        Let_def)









text \<open>
  C10 (probe failures are cached). When the probe raises during a cache miss at \<open>t0\<close>,
  the cache afterwards holds false stamped \<open>t0\<close>; every later query at an instant within
  \<open>ttl\<close> of \<open>t0\<close> answers false, leaves the cache as it is and adds nothing to the trace
  but the cache-hit record (so the probe is not called), whatever the probe would answer.
\<close>

theorem probe_failure_cached:
  assumes miss: "fst (AdminStatusCache_get c w) = None"
    and raises: "get_users cl [admin_status_check_id cfg] = Inl e"
    and first: "check_admin_online_status cfg cl c w = (b, c1, w1)"
    and within: "\<forall>(cl', t) \<in> set qs. t - clock w < ttl c"
    and later: "check_repeatedly cfg qs c1 w1 = (bs, c2, w2)"
  shows "b = False \<and> c1 = c\<lparr>is_online := False, timestamp := clock w\<rparr>
         \<and> bs = replicate (length qs) False \<and> c2 = c1
         \<and> trace w2 = trace w1 @ replicate (length qs) (Log DEBUG CacheUsed)"
proof -
  from miss have m: "\<not> (clock w - timestamp c < ttl c)"
    by (auto simp: AdminStatusCache_get_def split: if_splits)
  from first have c1: "c1 = c\<lparr>is_online := False, timestamp := clock w\<rparr>" and b: "b = False"
    by (simp_all add: check_probe_raises [OF m raises])
  from within have "\<forall>(cl', t) \<in> set qs. t - timestamp c1 < ttl c1"
    by (simp add: c1)
  from check_repeatedly_hits [OF this, of cfg w1] later show ?thesis
    by (auto simp: b c1)
qed

theorem probe_failure_cached_witness:
  "fst (check_repeatedly cfg0
          [(client_answering UserStatusOnline, 1700000010),
           (client_answering UserStatusOnline, 1700000029)]
          (fst (snd (check_admin_online_status cfg0 (client_failing (OtherError ''timeout''))
                       cache0 (world_at 1700000000))))
          (snd (snd (check_admin_online_status cfg0 (client_failing (OtherError ''timeout''))
                       cache0 (world_at 1700000000)))))
     = [False, False]"
proof -
  let ?r = "check_admin_online_status cfg0 (client_failing (OtherError ''timeout''))
              cache0 (world_at 1700000000)"
  let ?qs = "[(client_answering UserStatusOnline, 1700000010),
              (client_answering UserStatusOnline, 1700000029 :: real)]"
  let ?s = "check_repeatedly cfg0 ?qs (fst (snd ?r)) (snd (snd ?r))"
  have miss: "fst (AdminStatusCache_get cache0 (world_at 1700000000)) = None"
    by (simp add: AdminStatusCache_get_def cache0_def AdminStatusCache_init_def
          STATUS_CACHE_TTL_SEC_def world_at_def)
  have raises: "get_users (client_failing (OtherError ''timeout''))
                  [admin_status_check_id cfg0] = Inl (OtherError ''timeout'')"
    by (simp add: client_failing_def)
  have first: "?r = (fst ?r, fst (snd ?r), snd (snd ?r))"
    by simp
  have within: "\<forall>(cl', t) \<in> set ?qs. t - clock (world_at 1700000000) < ttl cache0"
    by (simp add: world_at_def cache0_def AdminStatusCache_init_def STATUS_CACHE_TTL_SEC_def)
  have later: "?s = (fst ?s, fst (snd ?s), snd (snd ?s))"
    by simp
  from probe_failure_cached [OF miss raises first within later]
  have "fst ?s = replicate (length ?qs) False"
    by (rule conjunct1 [OF conjunct2 [OF conjunct2]])
  also have "replicate (length ?qs) False = [False, False]"
    by (simp add: numeral_2_eq_2)
  finally show ?thesis .
qed

end
